theory Spec2Isabelle
  imports Main
begin

section \<open>Time values\<close>

text \<open>
  An aware \<open>datetime\<close> is represented by its instant: the number of microseconds since
  the epoch, in UTC. Comparison and subtraction of aware datetimes, and adding a
  \<open>timedelta\<close> to a datetime whose zone has a fixed offset (as every pytz zone object
  attached by \<open>astimezone\<close> has), depend on the instant only. A \<open>timedelta\<close> is its total
  number of microseconds. Python's bounds on both types (years 1 to 9999, at most
  999999999 days) are not modelled.
\<close>

type_synonym datetime = int
type_synonym timedelta = int

definition timedelta_minutes :: "int \<Rightarrow> timedelta" where
  \<comment> \<open>\<open>timedelta(minutes=m)\<close>\<close>
  "timedelta_minutes m = m * 60000000"

definition seconds :: "timedelta \<Rightarrow> int" where
  \<comment> \<open>the \<open>.seconds\<close> attribute of a normalised timedelta: \<open>0 \<le> seconds < 86400\<close>,
      the days and the microseconds being held in two other attributes\<close>
  "seconds d = (d div 1000000) mod 86400"

definition py_round_div :: "int \<Rightarrow> int \<Rightarrow> int" where
  \<comment> \<open>\<open>round(a / b)\<close> for integers \<open>a\<close> and \<open>b > 0\<close>: the nearest integer, a tie going to
      the even one. For \<open>0 \<le> a < 86400\<close> and \<open>b = 60\<close> the float quotient is a half-integer
      exactly when the rational one is, so Python's result is this one.\<close>
  "py_round_div a b =
     (let q = a div b; r = a mod b
      in if 2 * r < b then q
         else if 2 * r > b then q + 1
         else if even q then q else q + 1)"

section \<open>The model class\<close>

datatype py_exception = TypeError

text \<open>
  The attribute \<open>self.tenant\<close> is not declared by the abstract model; an owner class may
  supply it. \<open>NoTenant\<close>: looking it up raises. \<open>AwareNowFails\<close>: the tenant is there and
  \<open>aware_now_dt()\<close> is missing or raises an \<open>Exception\<close>. \<open>AwareNow dt\<close>: the call returns \<open>dt\<close>.
\<close>

datatype tenant_attr = NoTenant | AwareNowFails | AwareNow datetime

definition PAUSED :: int where "PAUSED = 1"
definition RUNNING :: int where "RUNNING = 2"

text \<open>
  The object: the ten model fields, then the private attribute
  \<open>__original_duration_in_minutes\<close> (\<open>None\<close> in the class, assigned by \<open>__init__\<close> and by
  \<open>save\<close>) and the tenant. \<open>state\<close> is the integer the field holds: \<open>save\<close> and the queries
  compare it with \<open>PAUSED\<close> and take every other value as not paused. The four date
  fields and \<open>paused_at\<close> are \<open>None\<close> until \<open>save\<close> assigns them. \<open>duration_in_minutes\<close> and
  \<open>start_date_offset_in_minutes\<close> are taken to hold integers.
\<close>

record CountdownTimer =
  duration_in_minutes :: int
  state :: int
  timezone_override :: "string option"
  start_date_offset_in_minutes :: int
  paused_at :: "datetime option"
  cumulative_pause_duration :: timedelta
  original_start_at :: "datetime option"
  original_end_at :: "datetime option"
  modified_start_at :: "datetime option"
  modified_end_at :: "datetime option"
  original_duration_in_minutes :: "int option"
  tenant :: tenant_attr

definition init :: "CountdownTimer \<Rightarrow> CountdownTimer" where
  \<comment> \<open>\<open>__init__\<close>, applied to the object whose fields the parent constructor has assigned\<close>
  "init self = self\<lparr>original_duration_in_minutes := Some (duration_in_minutes self)\<rparr>"

definition create :: "int \<Rightarrow> int \<Rightarrow> string option \<Rightarrow> int \<Rightarrow> tenant_attr \<Rightarrow> CountdownTimer" where
  \<comment> \<open>construction from the four configuration fields, the managed fields at their defaults\<close>
  "create d st tz off tn =
     init \<lparr>duration_in_minutes = d, state = st, timezone_override = tz,
           start_date_offset_in_minutes = off, paused_at = None,
           cumulative_pause_duration = 0, original_start_at = None,
           original_end_at = None, modified_start_at = None, modified_end_at = None,
           original_duration_in_minutes = None, tenant = tn\<rparr>"

subsection \<open>The clock\<close>

text \<open>
  Every call of \<open>_now_dt\<close> reads the system clock. The value \<open>datetime.utcnow()\<close> returns
  at a call site is a parameter of the function that contains the call, one parameter
  for each call site that function reaches. A zone override is taken to be one of the
  identifiers the field offers, which pytz resolves; the conversion keeps the instant.
\<close>

definition truthy :: "string option \<Rightarrow> bool" where
  \<comment> \<open>truth value of a nullable string: \<open>None\<close> and the empty string are false\<close>
  "truthy s = (case s of None \<Rightarrow> False | Some v \<Rightarrow> v \<noteq> [])"

definition astimezone :: "datetime \<Rightarrow> string option \<Rightarrow> datetime" where
  \<comment> \<open>the same instant, expressed in another zone\<close>
  "astimezone dt tz = dt"

definition now_dt :: "datetime \<Rightarrow> CountdownTimer \<Rightarrow> datetime" where
  \<comment> \<open>\<open>_now_dt\<close>\<close>
  "now_dt utcnow self =
     (if truthy (timezone_override self) then astimezone utcnow (timezone_override self)
      else utcnow)"

definition pause_delta :: "datetime \<Rightarrow> CountdownTimer \<Rightarrow> timedelta" where
  \<comment> \<open>\<open>_pause_delta\<close>; a datetime is always true, so the test is \<open>paused_at is not None\<close>\<close>
  "pause_delta utcnow self =
     (case paused_at self of
        Some p \<Rightarrow> now_dt utcnow self - p
      | None \<Rightarrow> 0)"

definition conditional_pause_delta :: "datetime \<Rightarrow> CountdownTimer \<Rightarrow> py_exception + timedelta" where
  \<comment> \<open>\<open>_conditional_pause_delta\<close>; \<open>now - None\<close> raises \<open>TypeError\<close>\<close>
  "conditional_pause_delta utcnow self =
     (if state self = PAUSED then
        (case paused_at self of
           Some p \<Rightarrow> Inr (now_dt utcnow self - p)
         | None \<Rightarrow> Inl TypeError)
      else Inr 0)"

subsection \<open>Recalculation: \<open>save\<close>\<close>

text \<open>
  The body of \<open>save\<close> is four blocks in sequence, each a function on the object here.
  A method returns its outcome (the exception raised, or the value) together with
  the object as the call leaves it.
\<close>

definition reset_if_new_duration :: "CountdownTimer \<Rightarrow> CountdownTimer" where
  \<comment> \<open>lines 163 to 166\<close>
  "reset_if_new_duration self =
     (if Some (duration_in_minutes self) \<noteq> original_duration_in_minutes self
      then self\<lparr>original_start_at := None, paused_at := None, cumulative_pause_duration := 0\<rparr>
      else self)"

definition assign_initial_values :: "datetime \<Rightarrow> CountdownTimer \<Rightarrow> CountdownTimer" where
  \<comment> \<open>lines 171 to 173\<close>
  "assign_initial_values now self =
     (if original_start_at self = None then
        (let start = now + timedelta_minutes (start_date_offset_in_minutes self)
         in self\<lparr>original_start_at := Some start,
                 original_end_at := Some (start + timedelta_minutes (duration_in_minutes self))\<rparr>)
      else self)"

definition pause_transition :: "datetime \<Rightarrow> datetime \<Rightarrow> CountdownTimer \<Rightarrow> CountdownTimer" where
  \<comment> \<open>lines 176 to 184; \<open>utcnow2\<close> is the clock as \<open>_pause_delta\<close> reads it\<close>
  "pause_transition now utcnow2 self =
     (if state self = PAUSED then
        (if paused_at self = None then self\<lparr>paused_at := Some now\<rparr> else self)
      else
        (if paused_at self \<noteq> None then
           self\<lparr>cumulative_pause_duration :=
                   cumulative_pause_duration self + pause_delta utcnow2 self,
                 paused_at := None\<rparr>
         else self))"

definition reset_modified :: "CountdownTimer \<Rightarrow> (py_exception + unit) \<times> CountdownTimer" where
  \<comment> \<open>lines 190 and 191; \<open>None + timedelta\<close> raises \<open>TypeError\<close>\<close>
  "reset_modified self =
     (case original_start_at self of
        None \<Rightarrow> (Inl TypeError, self)
      | Some s \<Rightarrow>
          (let self1 = self\<lparr>modified_start_at := Some (s + cumulative_pause_duration self)\<rparr>
           in case original_end_at self1 of
                None \<Rightarrow> (Inl TypeError, self1)
              | Some e \<Rightarrow>
                  (Inr (), self1\<lparr>modified_end_at := Some (e + cumulative_pause_duration self1)\<rparr>)))"

definition save :: "datetime \<Rightarrow> datetime \<Rightarrow> CountdownTimer \<Rightarrow> (py_exception + unit) \<times> CountdownTimer" where
  \<comment> \<open>\<open>utcnow1\<close> is the clock at line 157. The parent's \<open>save\<close> (the write to the
      database) is taken to succeed and changes no field.\<close>
  "save utcnow1 utcnow2 self =
     (let now = now_dt utcnow1 self;
          self3 = pause_transition now utcnow2
                    (assign_initial_values now (reset_if_new_duration self))
      in case reset_modified self3 of
           (Inl e, self4) \<Rightarrow> (Inl e, self4)
         | (Inr u, self4) \<Rightarrow>
             (Inr (), self4\<lparr>original_duration_in_minutes := Some (duration_in_minutes self4)\<rparr>))"

subsection \<open>Queries\<close>

definition cumulative_pause_duration_in_minutes :: "CountdownTimer \<Rightarrow> int" where
  \<comment> \<open>\<open>_cumulative_pause_duration_in_minutes\<close>\<close>
  "cumulative_pause_duration_in_minutes self =
     py_round_div \<bar>seconds (cumulative_pause_duration self)\<bar> 60"

definition remaining_time :: "datetime \<Rightarrow> datetime \<Rightarrow> CountdownTimer \<Rightarrow> (py_exception + timedelta) \<times> CountdownTimer" where
  \<comment> \<open>\<open>utcnow1\<close>: the clock at line 251, read when the tenant gives no time;
      \<open>utcnow2\<close>: the clock as \<open>_conditional_pause_delta\<close> reads it\<close>
  "remaining_time utcnow1 utcnow2 self =
     (let now = (case tenant self of
                   AwareNow dt \<Rightarrow> dt
                 | AwareNowFails \<Rightarrow> now_dt utcnow1 self
                 | NoTenant \<Rightarrow> now_dt utcnow1 self)
      in case conditional_pause_delta utcnow2 self of
           Inl e \<Rightarrow> (Inl e, self)
         | Inr delta \<Rightarrow>
             (case modified_end_at self of
                None \<Rightarrow> (Inl TypeError, self)
              | Some m \<Rightarrow>
                  (let end_dt = delta + m
                   in if now > end_dt then (Inr 0, self) else (Inr (end_dt - now), self))))"

definition remaining_time_in_minutes :: "datetime \<Rightarrow> datetime \<Rightarrow> CountdownTimer \<Rightarrow> (py_exception + int) \<times> CountdownTimer" where
  "remaining_time_in_minutes utcnow1 utcnow2 self =
     (case remaining_time utcnow1 utcnow2 self of
        (Inl e, self1) \<Rightarrow> (Inl e, self1)
      | (Inr d, self1) \<Rightarrow> (Inr (py_round_div \<bar>seconds d\<bar> 60), self1))"

definition remaining_future_datetime :: "datetime \<Rightarrow> datetime \<Rightarrow> datetime \<Rightarrow> CountdownTimer \<Rightarrow> (py_exception + datetime) \<times> CountdownTimer" where
  \<comment> \<open>\<open>utcnow3\<close>: the clock at line 272\<close>
  "remaining_future_datetime utcnow1 utcnow2 utcnow3 self =
     (case remaining_time_in_minutes utcnow1 utcnow2 self of
        (Inl e, self1) \<Rightarrow> (Inl e, self1)
      | (Inr m, self1) \<Rightarrow> (Inr (now_dt utcnow3 self1 + timedelta_minutes m), self1))"

definition time_elapsed :: "datetime \<Rightarrow> datetime \<Rightarrow> CountdownTimer \<Rightarrow> (py_exception + timedelta) \<times> CountdownTimer" where
  \<comment> \<open>\<open>utcnow1\<close>: the clock at line 279; \<open>utcnow2\<close>: as \<open>_conditional_pause_delta\<close> reads it\<close>
  "time_elapsed utcnow1 utcnow2 self =
     (let now = now_dt utcnow1 self
      in case conditional_pause_delta utcnow2 self of
           Inl e \<Rightarrow> (Inl e, self)
         | Inr delta \<Rightarrow>
             (case original_start_at self of
                None \<Rightarrow> (Inl TypeError, self)
              | Some s \<Rightarrow>
                  (let start_dt = delta + s
                   in if start_dt > now then (Inr 0, self) else (Inr (now - start_dt), self))))"

definition time_elapsed_in_minutes :: "datetime \<Rightarrow> datetime \<Rightarrow> CountdownTimer \<Rightarrow> (py_exception + int) \<times> CountdownTimer" where
  "time_elapsed_in_minutes utcnow1 utcnow2 self =
     (case time_elapsed utcnow1 utcnow2 self of
        (Inl e, self1) \<Rightarrow> (Inl e, self1)
      | (Inr d, self1) \<Rightarrow> (Inr (py_round_div \<bar>seconds d\<bar> 60), self1))"

definition time_elapsed_since_beginning :: "datetime \<Rightarrow> CountdownTimer \<Rightarrow> (py_exception + timedelta) \<times> CountdownTimer" where
  \<comment> \<open>comparing \<open>None\<close> with a datetime raises \<open>TypeError\<close>\<close>
  "time_elapsed_since_beginning utcnow self =
     (let now = now_dt utcnow self
      in case original_start_at self of
           None \<Rightarrow> (Inl TypeError, self)
         | Some start_dt \<Rightarrow>
             if start_dt > now then (Inr 0, self) else (Inr (now - start_dt), self))"

definition time_elapsed_since_beginning_in_minutes :: "datetime \<Rightarrow> CountdownTimer \<Rightarrow> (py_exception + int) \<times> CountdownTimer" where
  "time_elapsed_since_beginning_in_minutes utcnow self =
     (case time_elapsed_since_beginning utcnow self of
        (Inl e, self1) \<Rightarrow> (Inl e, self1)
      | (Inr d, self1) \<Rightarrow> (Inr (py_round_div \<bar>seconds d\<bar> 60), self1))"

subsection \<open>Callers\<close>

text \<open>
  What a caller does with a timer between construction and a query: it assigns the
  configuration fields and the tenant, and it saves. The managed fields are written by
  \<open>save\<close> alone. A run of actions stops at the first exception.
\<close>

datatype action =
    SetDurationInMinutes int
  | SetState int
  | SetTimezoneOverride "string option"
  | SetStartDateOffsetInMinutes int
  | SetTenant tenant_attr
  | Save datetime datetime

fun perform :: "action \<Rightarrow> CountdownTimer \<Rightarrow> (py_exception + unit) \<times> CountdownTimer" where
  "perform (SetDurationInMinutes d) self = (Inr (), self\<lparr>duration_in_minutes := d\<rparr>)"
| "perform (SetState st) self = (Inr (), self\<lparr>state := st\<rparr>)"
| "perform (SetTimezoneOverride tz) self = (Inr (), self\<lparr>timezone_override := tz\<rparr>)"
| "perform (SetStartDateOffsetInMinutes off) self =
     (Inr (), self\<lparr>start_date_offset_in_minutes := off\<rparr>)"
| "perform (SetTenant tn) self = (Inr (), self\<lparr>tenant := tn\<rparr>)"
| "perform (Save utcnow1 utcnow2) self = save utcnow1 utcnow2 self"

fun run :: "action list \<Rightarrow> CountdownTimer \<Rightarrow> (py_exception + unit) \<times> CountdownTimer" where
  "run [] self = (Inr (), self)"
| "run (a # as) self =
     (case perform a self of
        (Inl e, self1) \<Rightarrow> (Inl e, self1)
      | (Inr u, self1) \<Rightarrow> run as self1)"

subsection \<open>Auxiliary notions\<close>

definition consistent :: "CountdownTimer \<Rightarrow> bool" where
  \<comment> \<open>what every \<open>save\<close> maintains: once the start is assigned, the end lies the
      remembered duration after it\<close>
  "consistent self =
     (case original_start_at self of
        None \<Rightarrow> True
      | Some s \<Rightarrow>
          (case original_duration_in_minutes self of
             None \<Rightarrow> False
           | Some d \<Rightarrow> original_end_at self = Some (s + timedelta_minutes d)))"

definition sub_hour_minutes :: "timedelta \<Rightarrow> int" where
  \<comment> \<open>the specification's reading of the in-minutes helpers: the seconds of the
      duration within the current hour, rounded to the nearest minute\<close>
  "sub_hour_minutes d = py_round_div \<bar>(d div 1000000) mod 3600\<bar> 60"

section \<open>Properties of recalculation\<close>

text \<open>\<open>_now_dt\<close> returns the instant the clock shows, with or without a zone override.\<close>

lemma now_dt_instant: "now_dt utcnow self = utcnow"
  by (simp add: now_dt_def astimezone_def)

lemmas save_blocks = reset_if_new_duration_def assign_initial_values_def
  pause_transition_def reset_modified_def pause_delta_def

lemma reset_if_new_duration_keeps:
  "duration_in_minutes (reset_if_new_duration self) = duration_in_minutes self"
  "state (reset_if_new_duration self) = state self"
  "start_date_offset_in_minutes (reset_if_new_duration self) = start_date_offset_in_minutes self"
  "original_end_at (reset_if_new_duration self) = original_end_at self"
  "original_duration_in_minutes (reset_if_new_duration self) = original_duration_in_minutes self"
  by (simp_all add: reset_if_new_duration_def)

lemma assign_initial_values_keeps:
  "duration_in_minutes (assign_initial_values now self) = duration_in_minutes self"
  "state (assign_initial_values now self) = state self"
  "paused_at (assign_initial_values now self) = paused_at self"
  "cumulative_pause_duration (assign_initial_values now self) = cumulative_pause_duration self"
  "original_duration_in_minutes (assign_initial_values now self) = original_duration_in_minutes self"
  by (simp_all add: assign_initial_values_def Let_def)

lemma pause_transition_keeps:
  "original_start_at (pause_transition now utcnow2 self) = original_start_at self"
  "original_end_at (pause_transition now utcnow2 self) = original_end_at self"
  "duration_in_minutes (pause_transition now utcnow2 self) = duration_in_minutes self"
  "state (pause_transition now utcnow2 self) = state self"
  "original_duration_in_minutes (pause_transition now utcnow2 self)
     = original_duration_in_minutes self"
  by (simp_all add: pause_transition_def)

lemma pause_transition_paused_iff:
  "(state (pause_transition now utcnow2 self) = PAUSED)
     = (paused_at (pause_transition now utcnow2 self) \<noteq> None)"
  by (simp add: pause_transition_def)

lemma reset_modified_Inr:
  assumes "reset_modified self = (Inr u, self')"
  shows "\<exists>s e. original_start_at self = Some s \<and> original_end_at self = Some e
           \<and> self' = self\<lparr>modified_start_at := Some (s + cumulative_pause_duration self),
                          modified_end_at := Some (e + cumulative_pause_duration self)\<rparr>"
  using assms by (auto simp add: reset_modified_def Let_def split: option.splits)

lemma reset_modified_Inl:
  assumes "reset_modified self = (Inl x, self')"
  shows "original_start_at self = None \<or> original_end_at self = None"
  using assms by (auto simp add: reset_modified_def Let_def split: option.splits)

lemma save_Inr:
  assumes "save utcnow1 utcnow2 self = (Inr (), self')"
  shows "\<exists>self4. reset_modified (pause_transition (now_dt utcnow1 self) utcnow2
             (assign_initial_values (now_dt utcnow1 self) (reset_if_new_duration self)))
           = (Inr (), self4)
         \<and> self' = self4\<lparr>original_duration_in_minutes := Some (duration_in_minutes self4)\<rparr>"
  using assms by (auto simp add: save_def Let_def split: prod.splits sum.splits)

text \<open>
  Claim C1. When \<open>duration_in_minutes\<close> differs from the remembered value, the first block
  of \<open>save\<close> clears \<open>original_start_at\<close> and \<open>paused_at\<close> and sets
  \<open>cumulative_pause_duration\<close> to zero, and \<open>save\<close> as a whole returns normally with
  \<open>original_start_at = now + start_date_offset_in_minutes\<close> and
  \<open>original_end_at = original_start_at + duration_in_minutes\<close>, the pause total zero, and
  nothing of the former start, end, pause mark or pause total left: the new object is
  the old one with these fields overwritten by values computed from \<open>now\<close> and the
  configuration alone.
\<close>

theorem save_rearms_on_new_duration:
  assumes "Some (duration_in_minutes self) \<noteq> original_duration_in_minutes self"
  shows "reset_if_new_duration self =
           self\<lparr>original_start_at := None, paused_at := None, cumulative_pause_duration := 0\<rparr>
       \<and> save utcnow1 utcnow2 self =
           (Inr (),
            self\<lparr>original_start_at :=
                   Some (utcnow1 + timedelta_minutes (start_date_offset_in_minutes self)),
                 original_end_at :=
                   Some (utcnow1 + timedelta_minutes (start_date_offset_in_minutes self)
                         + timedelta_minutes (duration_in_minutes self)),
                 paused_at := (if state self = PAUSED then Some utcnow1 else None),
                 cumulative_pause_duration := 0,
                 modified_start_at :=
                   Some (utcnow1 + timedelta_minutes (start_date_offset_in_minutes self)),
                 modified_end_at :=
                   Some (utcnow1 + timedelta_minutes (start_date_offset_in_minutes self)
                         + timedelta_minutes (duration_in_minutes self)),
                 original_duration_in_minutes := Some (duration_in_minutes self)\<rparr>)"
  using assms by (simp add: save_def save_blocks now_dt_instant Let_def)

text \<open>
  An instance with progress to discard: a timer of 60 minutes with an offset of 5,
  armed at instant 0, paused from minute 10 to minute 25 and again since minute 30,
  then given a duration of 30. Before the \<open>save\<close> at minute 40 it holds a start at
  minute 5, a pause total of 15 minutes and an open pause; after it the start is
  minute 45, the end minute 75, the pause total zero and the pause mark minute 40.
\<close>

theorem save_rearms_on_new_duration_witness:
  "(let self = snd (run [Save 0 0, SetState PAUSED, Save 600000000 600000000,
                         SetState RUNNING, Save 1500000000 1500000000,
                         SetState PAUSED, Save 1800000000 1800000000,
                         SetDurationInMinutes 30]
                        (create 60 RUNNING None 5 NoTenant))
    in Some (duration_in_minutes self) \<noteq> original_duration_in_minutes self
     \<and> original_start_at self = Some 300000000
     \<and> original_end_at self = Some 3900000000
     \<and> paused_at self = Some 1800000000
     \<and> cumulative_pause_duration self = 900000000
     \<and> modified_end_at self = Some 4800000000
     \<and> original_start_at (reset_if_new_duration self) = None
     \<and> paused_at (reset_if_new_duration self) = None
     \<and> cumulative_pause_duration (reset_if_new_duration self) = 0
     \<and> fst (save 2400000000 2400000000 self) = Inr ()
     \<and> original_start_at (snd (save 2400000000 2400000000 self)) = Some 2700000000
     \<and> original_end_at (snd (save 2400000000 2400000000 self)) = Some 4500000000
     \<and> paused_at (snd (save 2400000000 2400000000 self)) = Some 2400000000
     \<and> cumulative_pause_duration (snd (save 2400000000 2400000000 self)) = 0
     \<and> modified_start_at (snd (save 2400000000 2400000000 self)) = Some 2700000000
     \<and> modified_end_at (snd (save 2400000000 2400000000 self)) = Some 4500000000
     \<and> original_duration_in_minutes (snd (save 2400000000 2400000000 self)) = Some 30)"
proof -
  define self where
    "self = snd (run [Save 0 0, SetState PAUSED, Save 600000000 600000000,
                      SetState RUNNING, Save 1500000000 1500000000,
                      SetState PAUSED, Save 1800000000 1800000000,
                      SetDurationInMinutes 30]
                     (create 60 RUNNING None 5 NoTenant))"
  have e: "self =
      \<lparr>duration_in_minutes = 30, state = PAUSED, timezone_override = None,
       start_date_offset_in_minutes = 5, paused_at = Some 1800000000,
       cumulative_pause_duration = 900000000, original_start_at = Some 300000000,
       original_end_at = Some 3900000000, modified_start_at = Some 1200000000,
       modified_end_at = Some 4800000000, original_duration_in_minutes = Some 60,
       tenant = NoTenant\<rparr>"
    by (simp add: self_def create_def init_def save_def save_blocks now_dt_instant Let_def
          PAUSED_def RUNNING_def timedelta_minutes_def)
  have h: "Some (duration_in_minutes self) \<noteq> original_duration_in_minutes self"
    by (simp add: e)
  from save_rearms_on_new_duration [OF h, of 2400000000 2400000000]
  have "reset_if_new_duration self =
           self\<lparr>original_start_at := None, paused_at := None, cumulative_pause_duration := 0\<rparr>"
    and "save 2400000000 2400000000 self =
           (Inr (),
            self\<lparr>original_start_at := Some 2700000000, original_end_at := Some 4500000000,
                 paused_at := Some 2400000000, cumulative_pause_duration := 0,
                 modified_start_at := Some 2700000000, modified_end_at := Some 4500000000,
                 original_duration_in_minutes := Some 30\<rparr>)"
    by (simp_all add: e timedelta_minutes_def)
  with h show ?thesis
    unfolding Let_def self_def [symmetric] by (simp add: e)
qed

subsection \<open>The derived fields after a save\<close>

lemma consistent_armed:
  assumes "consistent self"
  shows "\<exists>s. original_start_at (assign_initial_values now (reset_if_new_duration self)) = Some s
           \<and> original_end_at (assign_initial_values now (reset_if_new_duration self))
               = Some (s + timedelta_minutes (duration_in_minutes self))"
proof (cases "Some (duration_in_minutes self) = original_duration_in_minutes self")
  case True
  with assms show ?thesis
    by (cases "original_start_at self")
       (auto simp add: consistent_def reset_if_new_duration_def assign_initial_values_def Let_def
             split: option.splits)
next
  case False
  then show ?thesis
    by (simp add: reset_if_new_duration_def assign_initial_values_def Let_def)
qed

lemma consistent_save:
  assumes "consistent self"
  shows "\<exists>self' s. save utcnow1 utcnow2 self = (Inr (), self')
           \<and> original_start_at self' = Some s
           \<and> original_end_at self' = Some (s + timedelta_minutes (duration_in_minutes self'))
           \<and> modified_start_at self' = Some (s + cumulative_pause_duration self')
           \<and> modified_end_at self'
               = Some (s + timedelta_minutes (duration_in_minutes self')
                       + cumulative_pause_duration self')
           \<and> original_duration_in_minutes self' = Some (duration_in_minutes self')"
proof -
  define self2 where
    "self2 = assign_initial_values (now_dt utcnow1 self) (reset_if_new_duration self)"
  define self3 where "self3 = pause_transition (now_dt utcnow1 self) utcnow2 self2"
  from consistent_armed [OF assms] obtain s where
    "original_start_at self2 = Some s"
    "original_end_at self2 = Some (s + timedelta_minutes (duration_in_minutes self))"
    unfolding self2_def by blast
  then have 3: "original_start_at self3 = Some s"
    "original_end_at self3 = Some (s + timedelta_minutes (duration_in_minutes self))"
    by (simp_all add: self3_def pause_transition_keeps)
  have d: "duration_in_minutes self3 = duration_in_minutes self"
    by (simp add: self3_def self2_def pause_transition_keeps assign_initial_values_keeps
          reset_if_new_duration_keeps)
  have "save utcnow1 utcnow2 self =
          (Inr (), self3\<lparr>modified_start_at := Some (s + cumulative_pause_duration self3),
                         modified_end_at := Some (s + timedelta_minutes (duration_in_minutes self)
                                                  + cumulative_pause_duration self3),
                         original_duration_in_minutes := Some (duration_in_minutes self)\<rparr>)"
    using 3 d by (simp add: save_def Let_def reset_modified_def
          self3_def [symmetric] self2_def [symmetric])
  with 3 d show ?thesis by simp
qed

lemma consistent_create: "consistent (create d st tz off tn)"
  by (simp add: consistent_def create_def init_def)

lemma consistent_perform:
  assumes "consistent self" and "perform a self = (r, self')"
  shows "consistent self'"
proof (cases a)
  case (Save u1 u2)
  from consistent_save [OF assms(1), of u1 u2] obtain t s where
    "save u1 u2 self = (Inr (), t)" "original_start_at t = Some s"
    "original_end_at t = Some (s + timedelta_minutes (duration_in_minutes t))"
    "original_duration_in_minutes t = Some (duration_in_minutes t)"
    by blast
  with assms(2) Save show ?thesis by (auto simp add: consistent_def)
qed (use assms in \<open>auto simp add: consistent_def split: option.splits\<close>)

lemma consistent_run:
  assumes "consistent self" and "run acts self = (r, self')"
  shows "consistent self'"
  using assms
proof (induction acts arbitrary: self)
  case Nil
  then show ?case by simp
next
  case (Cons a acts)
  obtain r1 self1 where p: "perform a self = (r1, self1)" by (cases "perform a self")
  with Cons.prems(1) have c: "consistent self1" by (rule consistent_perform)
  show ?case
  proof (cases r1)
    case (Inl e)
    with p Cons.prems(2) c show ?thesis by simp
  next
    case (Inr u)
    with p Cons.prems(2) have "run acts self1 = (r, self')" by simp
    with c show ?thesis by (rule Cons.IH)
  qed
qed

text \<open>
  Claim C2. For a timer constructed from its configuration and then driven by any
  sequence of field assignments and saves, every further \<open>save\<close> returns normally and
  leaves \<open>original_end_at = original_start_at + duration_in_minutes\<close> minutes,
  \<open>modified_start_at = original_start_at + cumulative_pause_duration\<close> and
  \<open>modified_end_at = original_end_at + cumulative_pause_duration\<close>.
\<close>

theorem save_derived_fields:
  assumes "run acts (create d st tz off tn) = (Inr (), self)"
  shows "\<exists>self' s. save utcnow1 utcnow2 self = (Inr (), self')
           \<and> original_start_at self' = Some s
           \<and> original_end_at self' = Some (s + timedelta_minutes (duration_in_minutes self'))
           \<and> modified_start_at self' = Some (s + cumulative_pause_duration self')
           \<and> modified_end_at self'
               = Some (s + timedelta_minutes (duration_in_minutes self')
                       + cumulative_pause_duration self')"
proof -
  have "consistent self"
    using consistent_create assms by (rule consistent_run)
  from consistent_save [OF this, of utcnow1 utcnow2] show ?thesis by blast
qed

theorem save_derived_fields_witness:
  "run [Save 0 0, SetState PAUSED, Save 600000000 600000000, SetDurationInMinutes 30]
       (create 60 RUNNING None 0 NoTenant)
     = (Inr (), snd (run [Save 0 0, SetState PAUSED, Save 600000000 600000000,
                          SetDurationInMinutes 30] (create 60 RUNNING None 0 NoTenant)))
   \<and> (\<exists>self' s.
         save 900000000 900000000
              (snd (run [Save 0 0, SetState PAUSED, Save 600000000 600000000,
                         SetDurationInMinutes 30] (create 60 RUNNING None 0 NoTenant)))
           = (Inr (), self')
         \<and> original_start_at self' = Some s
         \<and> original_end_at self' = Some (s + timedelta_minutes (duration_in_minutes self'))
         \<and> modified_start_at self' = Some (s + cumulative_pause_duration self')
         \<and> modified_end_at self'
             = Some (s + timedelta_minutes (duration_in_minutes self')
                     + cumulative_pause_duration self'))"
proof -
  have h: "run [Save 0 0, SetState PAUSED, Save 600000000 600000000, SetDurationInMinutes 30]
       (create 60 RUNNING None 0 NoTenant)
     = (Inr (), snd (run [Save 0 0, SetState PAUSED, Save 600000000 600000000,
                          SetDurationInMinutes 30] (create 60 RUNNING None 0 NoTenant)))"
    by (simp add: create_def init_def save_def save_blocks now_dt_instant Let_def
          PAUSED_def RUNNING_def timedelta_minutes_def)
  from h save_derived_fields [OF h, of 900000000 900000000] show ?thesis
    by blast
qed

subsection \<open>Saving twice\<close>

lemma save_fixed_point:
  assumes "original_duration_in_minutes t = Some (duration_in_minutes t)"
    and "original_start_at t = Some s" and "original_end_at t = Some e"
    and "modified_start_at t = Some (s + cumulative_pause_duration t)"
    and "modified_end_at t = Some (e + cumulative_pause_duration t)"
    and "(state t = PAUSED) = (paused_at t \<noteq> None)"
  shows "save utcnow1 utcnow2 t = (Inr (), t)"
proof (cases "state t = PAUSED")
  case True
  with assms obtain p where "paused_at t = Some p" by auto
  with True assms(1-5) show ?thesis
    by (simp add: save_def save_blocks Let_def)
next
  case False
  with assms have "paused_at t = None" by auto
  with False assms(1-5) show ?thesis
    by (simp add: save_def save_blocks Let_def)
qed

lemma save_result_shape:
  assumes "save utcnow1 utcnow2 self = (Inr (), self')"
  shows "original_duration_in_minutes self' = Some (duration_in_minutes self')
       \<and> (\<exists>s e. original_start_at self' = Some s \<and> original_end_at self' = Some e
            \<and> modified_start_at self' = Some (s + cumulative_pause_duration self')
            \<and> modified_end_at self' = Some (e + cumulative_pause_duration self'))
       \<and> (state self' = PAUSED) = (paused_at self' \<noteq> None)"
proof -
  define self3 where "self3 = pause_transition (now_dt utcnow1 self) utcnow2
             (assign_initial_values (now_dt utcnow1 self) (reset_if_new_duration self))"
  from save_Inr [OF assms] obtain self4 where
    r: "reset_modified self3 = (Inr (), self4)"
    and s': "self' = self4\<lparr>original_duration_in_minutes := Some (duration_in_minutes self4)\<rparr>"
    unfolding self3_def by blast
  from reset_modified_Inr [OF r] obtain s e where
    se: "original_start_at self3 = Some s" "original_end_at self3 = Some e"
    and s4: "self4 = self3\<lparr>modified_start_at := Some (s + cumulative_pause_duration self3),
                          modified_end_at := Some (e + cumulative_pause_duration self3)\<rparr>"
    by blast
  have p: "(state self3 = PAUSED) = (paused_at self3 \<noteq> None)"
    unfolding self3_def by (rule pause_transition_paused_iff)
  show ?thesis
    using se p by (simp add: s' s4)
qed

text \<open>
  Claim C9. A second \<open>save\<close> straight after a successful one, with no field assigned in
  between, returns normally and leaves the object exactly as the first \<open>save\<close> left it,
  whatever the clock shows at either call: all six derived fields keep their values.
  An open pause stays open: \<open>paused_at\<close> is kept and nothing is added to
  \<open>cumulative_pause_duration\<close>.
\<close>

theorem save_twice:
  assumes "save utcnow1 utcnow2 self = (Inr (), self')"
  shows "save utcnow3 utcnow4 self' = (Inr (), self')"
proof -
  from save_result_shape [OF assms] obtain s e where
    "original_duration_in_minutes self' = Some (duration_in_minutes self')"
    "original_start_at self' = Some s" "original_end_at self' = Some e"
    "modified_start_at self' = Some (s + cumulative_pause_duration self')"
    "modified_end_at self' = Some (e + cumulative_pause_duration self')"
    "(state self' = PAUSED) = (paused_at self' \<noteq> None)"
    by blast
  then show ?thesis by (rule save_fixed_point)
qed

theorem save_twice_witness:
  "save 600000000 600000000 (create 60 PAUSED None 0 NoTenant)
     = (Inr (), snd (save 600000000 600000000 (create 60 PAUSED None 0 NoTenant)))
   \<and> save 900000000 900000001 (snd (save 600000000 600000000 (create 60 PAUSED None 0 NoTenant)))
     = (Inr (), snd (save 600000000 600000000 (create 60 PAUSED None 0 NoTenant)))"
proof -
  have h: "save 600000000 600000000 (create 60 PAUSED None 0 NoTenant)
     = (Inr (), snd (save 600000000 600000000 (create 60 PAUSED None 0 NoTenant)))"
    by (simp add: create_def init_def save_def save_blocks now_dt_instant Let_def)
  from h save_twice [OF h, of 900000000 900000001] show ?thesis
    by blast
qed

subsection \<open>Pause transitions\<close>

lemmas eval_defs = create_def init_def save_def save_blocks now_dt_instant Let_def
  PAUSED_def RUNNING_def timedelta_minutes_def

lemma save_pause_fields:
  "paused_at (snd (save utcnow1 utcnow2 self))
     = paused_at (pause_transition (now_dt utcnow1 self) utcnow2
         (assign_initial_values (now_dt utcnow1 self) (reset_if_new_duration self)))"
  "cumulative_pause_duration (snd (save utcnow1 utcnow2 self))
     = cumulative_pause_duration (pause_transition (now_dt utcnow1 self) utcnow2
         (assign_initial_values (now_dt utcnow1 self) (reset_if_new_duration self)))"
  by (simp_all add: save_def reset_modified_def Let_def split: option.splits)

text \<open>
  Claim C5. Let \<open>self2\<close> be the object as the pause block of \<open>save\<close> finds it, that is
  after the reset on a new duration and the assignment of the initial values, and
  \<open>now\<close> the clock as \<open>save\<close> read it on entry. If the state is \<open>PAUSED\<close> and \<open>paused_at\<close>
  is unset there, \<open>save\<close> sets \<open>paused_at = now\<close>; if the state is \<open>PAUSED\<close> and \<open>paused_at\<close> is
  set, it stays as it is; in both cases the pause total is untouched. If the state is
  not \<open>PAUSED\<close> and \<open>paused_at\<close> is set, \<open>save\<close> adds the time from \<open>paused_at\<close> to the
  clock, as \<open>_pause_delta\<close> reads it at that moment, to \<open>cumulative_pause_duration\<close> and
  clears \<open>paused_at\<close>; if \<open>paused_at\<close> is unset nothing changes. When the duration is the
  remembered one, \<open>self2\<close> has the \<open>paused_at\<close> and the pause total of the object \<open>save\<close>
  was called on; when it is a new one, they have been reset before.
\<close>

theorem save_pause_transitions:
  "let now = now_dt utcnow1 self;
       self2 = assign_initial_values now (reset_if_new_duration self);
       self' = snd (save utcnow1 utcnow2 self)
   in (state self = PAUSED \<and> paused_at self2 = None \<longrightarrow>
         paused_at self' = Some now
         \<and> cumulative_pause_duration self' = cumulative_pause_duration self2)
    \<and> (state self = PAUSED \<and> paused_at self2 = Some p \<longrightarrow>
         paused_at self' = Some p
         \<and> cumulative_pause_duration self' = cumulative_pause_duration self2)
    \<and> (state self \<noteq> PAUSED \<and> paused_at self2 = Some p \<longrightarrow>
         cumulative_pause_duration self'
           = cumulative_pause_duration self2 + (now_dt utcnow2 self - p)
         \<and> paused_at self' = None)
    \<and> (state self \<noteq> PAUSED \<and> paused_at self2 = None \<longrightarrow>
         paused_at self' = None
         \<and> cumulative_pause_duration self' = cumulative_pause_duration self2)
    \<and> (Some (duration_in_minutes self) = original_duration_in_minutes self \<longrightarrow>
         paused_at self2 = paused_at self
         \<and> cumulative_pause_duration self2 = cumulative_pause_duration self)
    \<and> (Some (duration_in_minutes self) \<noteq> original_duration_in_minutes self \<longrightarrow>
         paused_at self2 = None \<and> cumulative_pause_duration self2 = 0)"
proof -
  define self2 where
    "self2 = assign_initial_values (now_dt utcnow1 self) (reset_if_new_duration self)"
  have st: "state self2 = state self"
    by (simp add: self2_def assign_initial_values_keeps reset_if_new_duration_keeps)
  have a: "paused_at self2 = paused_at (reset_if_new_duration self)"
    "cumulative_pause_duration self2 = cumulative_pause_duration (reset_if_new_duration self)"
    by (simp_all add: self2_def assign_initial_values_keeps)
  have 1: "state self2 = PAUSED \<and> paused_at self2 = None \<longrightarrow>
      pause_transition (now_dt utcnow1 self) utcnow2 self2
        = self2\<lparr>paused_at := Some (now_dt utcnow1 self)\<rparr>"
    by (simp add: pause_transition_def)
  have 2: "state self2 = PAUSED \<and> paused_at self2 = Some p \<longrightarrow>
      pause_transition (now_dt utcnow1 self) utcnow2 self2 = self2"
    by (simp add: pause_transition_def)
  have 3: "state self2 \<noteq> PAUSED \<and> paused_at self2 = Some p \<longrightarrow>
      pause_transition (now_dt utcnow1 self) utcnow2 self2
        = self2\<lparr>cumulative_pause_duration :=
                   cumulative_pause_duration self2 + (now_dt utcnow2 self - p),
                 paused_at := None\<rparr>"
    by (simp add: pause_transition_def pause_delta_def now_dt_instant)
  have 4: "state self2 \<noteq> PAUSED \<and> paused_at self2 = None \<longrightarrow>
      pause_transition (now_dt utcnow1 self) utcnow2 self2 = self2"
    by (simp add: pause_transition_def)
  have 5: "Some (duration_in_minutes self) = original_duration_in_minutes self \<longrightarrow>
         paused_at self2 = paused_at self
         \<and> cumulative_pause_duration self2 = cumulative_pause_duration self"
    by (simp add: a reset_if_new_duration_def)
  have 6: "Some (duration_in_minutes self) \<noteq> original_duration_in_minutes self \<longrightarrow>
         paused_at self2 = None \<and> cumulative_pause_duration self2 = 0"
    by (simp add: a reset_if_new_duration_def)
  show ?thesis
    unfolding Let_def save_pause_fields self2_def [symmetric]
    using 1 2 3 4 5 6 st by auto
qed

theorem save_pause_transitions_witness:
  "paused_at (snd (save 600000000 600000000
      ((snd (save 0 0 (create 60 RUNNING None 0 NoTenant)))\<lparr>state := PAUSED\<rparr>)))
     = Some 600000000
   \<and> paused_at (snd (save 900000000 900000000
      (snd (save 600000000 600000000
        ((snd (save 0 0 (create 60 RUNNING None 0 NoTenant)))\<lparr>state := PAUSED\<rparr>)))))
     = Some 600000000
   \<and> cumulative_pause_duration (snd (save 1500000000 1500000007
      ((snd (save 600000000 600000000
        ((snd (save 0 0 (create 60 RUNNING None 0 NoTenant)))\<lparr>state := PAUSED\<rparr>)))
       \<lparr>state := RUNNING\<rparr>)))
     = 900000007
   \<and> paused_at (snd (save 1500000000 1500000007
      ((snd (save 600000000 600000000
        ((snd (save 0 0 (create 60 RUNNING None 0 NoTenant)))\<lparr>state := PAUSED\<rparr>)))
       \<lparr>state := RUNNING\<rparr>)))
     = None"
  using
    save_pause_transitions [of 600000000
      "(snd (save 0 0 (create 60 RUNNING None 0 NoTenant)))\<lparr>state := PAUSED\<rparr>" 600000000 0]
    save_pause_transitions [of 900000000
      "snd (save 600000000 600000000
        ((snd (save 0 0 (create 60 RUNNING None 0 NoTenant)))\<lparr>state := PAUSED\<rparr>))"
      900000000 600000000]
    save_pause_transitions [of 1500000000
      "(snd (save 600000000 600000000
        ((snd (save 0 0 (create 60 RUNNING None 0 NoTenant)))\<lparr>state := PAUSED\<rparr>)))
       \<lparr>state := RUNNING\<rparr>" 1500000007 600000000]
  by (simp add: eval_defs)

section \<open>Properties of the queries\<close>

text \<open>
  Claim C3. Take a timer whose \<open>modified_end_at\<close> is assigned and whose \<open>paused_at\<close> is
  assigned if its state is \<open>PAUSED\<close> (every timer is so when a \<open>save\<close> has returned,
  by \<open>save_result_shape\<close>), and let every clock the call consults show the instant
  \<open>now\<close>. Then \<open>remaining_time\<close> returns \<open>max(0, end - now)\<close> where
  \<open>end = modified_end_at + open_pause_delta\<close> and \<open>open_pause_delta\<close> is \<open>now - paused_at\<close>
  if the state is \<open>PAUSED\<close> and zero otherwise. In particular the result is zero
  whenever \<open>now > end\<close>, and it is never negative.
\<close>

theorem remaining_time_clamped:
  assumes "modified_end_at self = Some m"
    and "state self = PAUSED \<Longrightarrow> paused_at self = Some p"
    and "tenant self \<in> {NoTenant, AwareNowFails, AwareNow now}"
  shows "fst (remaining_time now now self)
           = Inr (max 0 (m + (if state self = PAUSED then now - p else 0) - now))
       \<and> (now > m + (if state self = PAUSED then now - p else 0)
            \<longrightarrow> fst (remaining_time now now self) = Inr 0)
       \<and> (\<exists>d. fst (remaining_time now now self) = Inr d \<and> 0 \<le> d)"
proof (cases "state self = PAUSED")
  case True
  with assms(2) have "conditional_pause_delta now self = Inr (now - p)"
    by (simp add: conditional_pause_delta_def now_dt_instant)
  with assms(1,3) True show ?thesis
    by (auto simp add: remaining_time_def now_dt_instant Let_def)
next
  case False
  then have "conditional_pause_delta now self = Inr 0"
    by (simp add: conditional_pause_delta_def)
  with assms(1,3) False show ?thesis
    by (auto simp add: remaining_time_def now_dt_instant Let_def)
qed

theorem remaining_time_clamped_witness:
  "fst (remaining_time 1500000000 1500000000
      (snd (run [Save 0 0, SetState PAUSED, Save 600000000 600000000]
                (create 60 RUNNING None 0 NoTenant))))
     = Inr 3000000000
   \<and> fst (remaining_time 9000000000 9000000000
      (snd (run [Save 0 0] (create 60 RUNNING None 0 NoTenant))))
     = Inr 0"
  using
    remaining_time_clamped [where now = 1500000000 and m = 3600000000 and p = 600000000
      and self = "snd (run [Save 0 0, SetState PAUSED, Save 600000000 600000000]
                           (create 60 RUNNING None 0 NoTenant))"]
    remaining_time_clamped [where now = 9000000000 and m = 3600000000 and p = 0
      and self = "snd (run [Save 0 0] (create 60 RUNNING None 0 NoTenant))"]
  by (simp add: eval_defs)

text \<open>
  Claim C4, on the code. A timer of 60 minutes is armed at \<open>T0\<close> in state \<open>RUNNING\<close>,
  paused at \<open>T0 + 10\<close> minutes and resumed at \<open>T0 + 25\<close> minutes, each time with a \<open>save\<close>.
  The pause total is then 15 minutes and \<open>modified_start_at\<close> is \<open>T0 + 15\<close> minutes. At
  \<open>T0 + 35\<close> minutes \<open>remaining_time\<close> returns 40 minutes, and \<open>time_elapsed\<close> returns 35
  minutes: it measures from \<open>original_start_at\<close>, so the 15 minutes of the completed
  pause are counted, where its documentation says that it ignores the duration lost
  to pauses, which gives 20 minutes.
\<close>

theorem time_elapsed_after_resume:
  "cumulative_pause_duration
     (snd (run [Save T0 T0, SetState PAUSED,
                Save (T0 + timedelta_minutes 10) (T0 + timedelta_minutes 10),
                SetState RUNNING,
                Save (T0 + timedelta_minutes 25) (T0 + timedelta_minutes 25)]
               (create 60 RUNNING None 0 NoTenant)))
     = timedelta_minutes 15
   \<and> modified_start_at
     (snd (run [Save T0 T0, SetState PAUSED,
                Save (T0 + timedelta_minutes 10) (T0 + timedelta_minutes 10),
                SetState RUNNING,
                Save (T0 + timedelta_minutes 25) (T0 + timedelta_minutes 25)]
               (create 60 RUNNING None 0 NoTenant)))
     = Some (T0 + timedelta_minutes 15)
   \<and> fst (remaining_time (T0 + timedelta_minutes 35) (T0 + timedelta_minutes 35)
         (snd (run [Save T0 T0, SetState PAUSED,
                    Save (T0 + timedelta_minutes 10) (T0 + timedelta_minutes 10),
                    SetState RUNNING,
                    Save (T0 + timedelta_minutes 25) (T0 + timedelta_minutes 25)]
                   (create 60 RUNNING None 0 NoTenant))))
     = Inr (timedelta_minutes 40)
   \<and> fst (time_elapsed (T0 + timedelta_minutes 35) (T0 + timedelta_minutes 35)
         (snd (run [Save T0 T0, SetState PAUSED,
                    Save (T0 + timedelta_minutes 10) (T0 + timedelta_minutes 10),
                    SetState RUNNING,
                    Save (T0 + timedelta_minutes 25) (T0 + timedelta_minutes 25)]
                   (create 60 RUNNING None 0 NoTenant))))
     = Inr (timedelta_minutes 35)"
  by (simp add: eval_defs time_elapsed_def remaining_time_def conditional_pause_delta_def)

text \<open>
  Claim C6, on the code. A timer is armed in state \<open>RUNNING\<close> by a \<open>save\<close>, and its state is
  then set to \<open>PAUSED\<close> with no \<open>save\<close> yet: the state is \<open>PAUSED\<close> and \<open>paused_at\<close> is unset.
  On this timer \<open>remaining_time\<close>, \<open>remaining_future_datetime\<close>, \<open>time_elapsed\<close> and their
  in-minutes variants raise \<open>TypeError\<close>, because \<open>_conditional_pause_delta\<close> subtracts \<open>paused_at\<close> without
  testing it. \<open>_pause_delta\<close>, which tests it, returns the zero duration on the same
  timer.
\<close>

theorem queries_raise_when_paused_unsaved:
  "state (snd (run [Save 0 0, SetState PAUSED] (create 60 RUNNING None 0 NoTenant))) = PAUSED
   \<and> paused_at (snd (run [Save 0 0, SetState PAUSED] (create 60 RUNNING None 0 NoTenant))) = None
   \<and> fst (remaining_time 600000000 600000000
         (snd (run [Save 0 0, SetState PAUSED] (create 60 RUNNING None 0 NoTenant))))
       = Inl TypeError
   \<and> fst (remaining_time_in_minutes 600000000 600000000
         (snd (run [Save 0 0, SetState PAUSED] (create 60 RUNNING None 0 NoTenant))))
       = Inl TypeError
   \<and> fst (remaining_future_datetime 600000000 600000000 600000000
         (snd (run [Save 0 0, SetState PAUSED] (create 60 RUNNING None 0 NoTenant))))
       = Inl TypeError
   \<and> fst (time_elapsed 600000000 600000000
         (snd (run [Save 0 0, SetState PAUSED] (create 60 RUNNING None 0 NoTenant))))
       = Inl TypeError
   \<and> fst (time_elapsed_in_minutes 600000000 600000000
         (snd (run [Save 0 0, SetState PAUSED] (create 60 RUNNING None 0 NoTenant))))
       = Inl TypeError
   \<and> pause_delta 600000000
         (snd (run [Save 0 0, SetState PAUSED] (create 60 RUNNING None 0 NoTenant)))
       = 0"
  by (simp add: eval_defs remaining_time_def remaining_time_in_minutes_def
        remaining_future_datetime_def time_elapsed_def time_elapsed_in_minutes_def
        conditional_pause_delta_def)

text \<open>
  Claim C10. Every query leaves the object as it found it, whether it returns a value
  or raises: \<open>remaining_time\<close>, \<open>remaining_future_datetime\<close>, \<open>time_elapsed\<close>,
  \<open>time_elapsed_since_beginning\<close> and the three in-minutes variants change no field,
  \<open>paused_at\<close> and \<open>cumulative_pause_duration\<close> included.
\<close>

theorem queries_leave_fields:
  "snd (remaining_time utcnow1 utcnow2 self) = self
   \<and> snd (remaining_time_in_minutes utcnow1 utcnow2 self) = self
   \<and> snd (remaining_future_datetime utcnow1 utcnow2 utcnow3 self) = self
   \<and> snd (time_elapsed utcnow1 utcnow2 self) = self
   \<and> snd (time_elapsed_in_minutes utcnow1 utcnow2 self) = self
   \<and> snd (time_elapsed_since_beginning utcnow1 self) = self
   \<and> snd (time_elapsed_since_beginning_in_minutes utcnow1 self) = self"
proof -
  have r: "snd (remaining_time utcnow1 utcnow2 self) = self"
    by (simp add: remaining_time_def Let_def split: sum.splits option.splits)
  have e: "snd (time_elapsed utcnow1 utcnow2 self) = self"
    by (simp add: time_elapsed_def Let_def split: sum.splits option.splits)
  have b: "snd (time_elapsed_since_beginning utcnow1 self) = self"
    by (simp add: time_elapsed_since_beginning_def Let_def split: option.splits)
  have rm: "snd (remaining_time_in_minutes utcnow1 utcnow2 self) = self"
    using r by (auto simp add: remaining_time_in_minutes_def split: prod.splits sum.splits)
  have rf: "snd (remaining_future_datetime utcnow1 utcnow2 utcnow3 self) = self"
    using rm by (auto simp add: remaining_future_datetime_def split: prod.splits sum.splits)
  have em: "snd (time_elapsed_in_minutes utcnow1 utcnow2 self) = self"
    using e by (auto simp add: time_elapsed_in_minutes_def split: prod.splits sum.splits)
  have bm: "snd (time_elapsed_since_beginning_in_minutes utcnow1 self) = self"
    using b by (auto simp add: time_elapsed_since_beginning_in_minutes_def split: prod.splits sum.splits)
  from r rm rf e em b bm show ?thesis by simp
qed

subsection \<open>The tenant's clock\<close>




lemma in_minutes_fst:
  "fst (remaining_time_in_minutes utcnow1 utcnow2 self)
     = map_sum id (\<lambda>d. py_round_div \<bar>seconds d\<bar> 60) (fst (remaining_time utcnow1 utcnow2 self))"
  "fst (time_elapsed_in_minutes utcnow1 utcnow2 self)
     = map_sum id (\<lambda>d. py_round_div \<bar>seconds d\<bar> 60) (fst (time_elapsed utcnow1 utcnow2 self))"
  "fst (time_elapsed_since_beginning_in_minutes utcnow1 self)
     = map_sum id (\<lambda>d. py_round_div \<bar>seconds d\<bar> 60)
         (fst (time_elapsed_since_beginning utcnow1 self))"
  by (auto simp add: remaining_time_in_minutes_def time_elapsed_in_minutes_def
        time_elapsed_since_beginning_in_minutes_def split: prod.splits sum.splits)






subsection \<open>Minutes\<close>

lemma seconds_range: "0 \<le> seconds d \<and> seconds d < 86400"
  by (simp add: seconds_def)

lemma seconds_drops_days: "seconds d = d div 1000000 - 86400 * (d div 86400000000)"
proof -
  have "(d div 1000000) div 86400 = d div (1000000 * 86400)"
    by (simp add: zdiv_zmult2_eq)
  then have "(d div 1000000) div 86400 = d div 86400000000" by simp
  moreover have "(d div 1000000) mod 86400
      = d div 1000000 - 86400 * ((d div 1000000) div 86400)"
    by (simp add: minus_mult_div_eq_mod)
  ultimately show ?thesis by (simp add: seconds_def)
qed

lemma seconds_below_a_day:
  assumes "0 \<le> d" and "d < 86400000000"
  shows "seconds d = d div 1000000"
proof -
  from assms have "d div 86400000000 = 0" by simp
  then show ?thesis by (simp add: seconds_drops_days)
qed

lemma py_round_div_60_nearest: "\<bar>60 * py_round_div s 60 - s\<bar> \<le> 30"
proof -
  define q where "q = s div 60"
  define r where "r = s mod 60"
  have s: "s = 60 * q + r" by (simp add: q_def r_def)
  have r: "0 \<le> r" "r < 60" by (simp_all add: r_def)
  have "py_round_div s 60 = q \<and> r \<le> 30 \<or> py_round_div s 60 = q + 1 \<and> 30 \<le> r"
    unfolding py_round_div_def Let_def q_def [symmetric] r_def [symmetric] by auto
  with s r show ?thesis by auto
qed

text \<open>
  Claim C8 as stated fails. With 2 hours remaining, \<open>remaining_time_in_minutes\<close>
  returns 120, the total number of minutes; the seconds of that duration within the
  current hour are none, and rounding them gives 0.
\<close>

theorem in_minutes_two_hours_example:
  "fst (remaining_time 3600000000 3600000000
      (snd (save 0 0 (create 180 RUNNING None 0 NoTenant)))) = Inr 7200000000
   \<and> fst (remaining_time_in_minutes 3600000000 3600000000
      (snd (save 0 0 (create 180 RUNNING None 0 NoTenant)))) = Inr 120
   \<and> sub_hour_minutes 7200000000 = 0"
  by (simp add: eval_defs remaining_time_def remaining_time_in_minutes_def
        conditional_pause_delta_def seconds_def py_round_div_def sub_hour_minutes_def)

text \<open>
  Claim C8, amended. Each in-minutes variant returns \<open>round(abs(d.seconds) / 60)\<close> for
  the duration \<open>d\<close> its query returns, at most half a minute away from \<open>d.seconds\<close>.
  \<open>d.seconds\<close> lies between 0 and 86399: it is the number of whole seconds of \<open>d\<close> less
  86400 for each whole day of \<open>d\<close>. So for a duration below 24 hours it is all the
  whole seconds of the duration, hours included, and only whole days are dropped.
\<close>

theorem in_minutes_round_seconds_of_day:
  "(fst (remaining_time utcnow1 utcnow2 self) = Inr d \<longrightarrow>
      fst (remaining_time_in_minutes utcnow1 utcnow2 self) = Inr (py_round_div \<bar>seconds d\<bar> 60))
   \<and> (fst (time_elapsed utcnow1 utcnow2 self) = Inr d \<longrightarrow>
      fst (time_elapsed_in_minutes utcnow1 utcnow2 self) = Inr (py_round_div \<bar>seconds d\<bar> 60))
   \<and> (fst (time_elapsed_since_beginning utcnow1 self) = Inr d \<longrightarrow>
      fst (time_elapsed_since_beginning_in_minutes utcnow1 self)
        = Inr (py_round_div \<bar>seconds d\<bar> 60))
   \<and> 0 \<le> seconds d \<and> seconds d < 86400
   \<and> seconds d = d div 1000000 - 86400 * (d div 86400000000)
   \<and> (0 \<le> d \<and> d < 86400000000 \<longrightarrow> seconds d = d div 1000000)
   \<and> \<bar>60 * py_round_div \<bar>seconds d\<bar> 60 - \<bar>seconds d\<bar>\<bar> \<le> 30"
  using seconds_range [of d] seconds_drops_days [of d] seconds_below_a_day [of d]
    py_round_div_60_nearest [of "\<bar>seconds d\<bar>"]
  by (simp add: in_minutes_fst)

theorem in_minutes_round_seconds_of_day_witness:
  "fst (remaining_time_in_minutes 3300000000 3300000000
      (snd (save 0 0 (create 1500 RUNNING None 0 NoTenant)))) = Inr 5
   \<and> fst (time_elapsed_in_minutes 7230000000 7230000000
      (snd (save 0 0 (create 1500 RUNNING None 0 NoTenant)))) = Inr 120
   \<and> fst (time_elapsed_since_beginning_in_minutes 7290000000
      (snd (save 0 0 (create 1500 RUNNING None 0 NoTenant)))) = Inr 122"
  using
    in_minutes_round_seconds_of_day [of 3300000000 3300000000
      "snd (save 0 0 (create 1500 RUNNING None 0 NoTenant))" 86700000000]
    in_minutes_round_seconds_of_day [of 7230000000 7230000000
      "snd (save 0 0 (create 1500 RUNNING None 0 NoTenant))" 7230000000]
    in_minutes_round_seconds_of_day [of 7290000000 7290000000
      "snd (save 0 0 (create 1500 RUNNING None 0 NoTenant))" 7290000000]
  by (simp add: eval_defs remaining_time_def time_elapsed_def time_elapsed_since_beginning_def
        conditional_pause_delta_def seconds_def py_round_div_def)

end
